theory Spec2Isabelle
  imports Complex_Main "HOL-Library.Word"
begin

section \<open>The initial-pose callback of \<open>set_initpose_main.cc\<close>\<close>

text \<open>
  The development embeds \<open>move_base_simple_callback\<close>: the counter of trajectory
  ids, the two service calls, the lookup of the origin of trajectory 0, the scan over the
  submap poses that recovers a height for the 2D pose hint, and the composition of the
  relative initial pose.

  Conventions of the embedding:
  \<^item> a \<open>tf2Scalar\<close> (a C++ \<open>double\<close>) is a real number, and every arithmetic operation
    of the code is the exact operation followed by a rounding \<open>r\<close>, which all
    definitions take as their first argument: one rounding for each operation, in the
    order in which the source writes them (no fused multiply-add). With \<open>round_double\<close>
    this is the arithmetic of the program; with \<open>exact\<close> it is the arithmetic of the real
    numbers, in which the algebraic statements about rigid transforms are made. What is
    proved of the scan is proved for every rounding.
  \<^item> \<open>int\<close> is a 32-bit word read as two's complement. The increment of the largest
    value, which C++ leaves undefined, wraps around in the model.
  \<^item> the operations of \<open>tf2\<close> (\<open>Vector3\<close>, \<open>Matrix3x3\<close>, \<open>Transform\<close>) and
    the iterator of cartographer's \<open>MapById\<close> are library code that the callback calls;
    they are written out below as their headers define them.
  \<^item> a service call is an input of the callback (what the call returned and the status
    code found in the response afterwards) and an output (the request that was sent).
\<close>

subsection \<open>Double arithmetic\<close>

text \<open>
  \<open>round_double\<close> rounds a real number to the nearest double, ties to the even
  significand: 53 bits of precision, with the spacing of the subnormal numbers below
  \<open>2 ^ - 1022\<close>, so that small values underflow as they do in the program. There is no
  largest double in the model: a result beyond the range stands for an infinity, which
  like it compares above every distance the scan keeps. NaN has no counterpart.
\<close>

type_synonym rounding = "real \<Rightarrow> real"

definition exact :: rounding where
  "exact x = x"

definition round_half_even :: "real \<Rightarrow> int" where
  "round_half_even y =
     (let n = \<lfloor>y\<rfloor>; f = y - of_int n
      in if f < 1 / 2 then n else if 1 / 2 < f then n + 1 else if even n then n else n + 1)"

definition ulp_exponent :: "real \<Rightarrow> int" where
  "ulp_exponent x = max \<lfloor>log 2 \<bar>x\<bar>\<rfloor> (- 1022) - 52"

definition round_double :: rounding where
  "round_double x =
     (if x = 0 then 0
      else of_int (round_half_even (x / 2 powr of_int (ulp_exponent x)))
             * 2 powr of_int (ulp_exponent x))"

subsection \<open>tf2 linear algebra\<close>

datatype Vector3 = Vector3 (getX: real) (getY: real) (getZ: real)

datatype Quaternion = Quaternion (qx: real) (qy: real) (qz: real) (qw: real)

datatype Matrix3x3 = Matrix3x3 (row0: Vector3) (row1: Vector3) (row2: Vector3)

record Transform =
  m_basis :: Matrix3x3
  m_origin :: Vector3

definition dot :: "rounding \<Rightarrow> Vector3 \<Rightarrow> Vector3 \<Rightarrow> real" where
  "dot r a b = r (r (r (getX a * getX b) + r (getY a * getY b)) + r (getZ a * getZ b))"

definition length2 :: "rounding \<Rightarrow> Vector3 \<Rightarrow> real" where
  "length2 r v = dot r v v"

definition length_Vector3 :: "rounding \<Rightarrow> Vector3 \<Rightarrow> real" where
  "length_Vector3 r v = r (sqrt (length2 r v))"

definition minus_Vector3 :: "rounding \<Rightarrow> Vector3 \<Rightarrow> Vector3 \<Rightarrow> Vector3" where
  "minus_Vector3 r a b =
     Vector3 (r (getX a - getX b)) (r (getY a - getY b)) (r (getZ a - getZ b))"

text \<open>Negation flips the sign and rounds nothing.\<close>

definition neg_Vector3 :: "Vector3 \<Rightarrow> Vector3" where
  "neg_Vector3 v = Vector3 (- getX v) (- getY v) (- getZ v)"

definition setZ :: "Vector3 \<Rightarrow> real \<Rightarrow> Vector3" where
  "setZ v z = Vector3 (getX v) (getY v) z"

definition length2_Quaternion :: "rounding \<Rightarrow> Quaternion \<Rightarrow> real" where
  "length2_Quaternion r q =
     r (r (r (r (qx q * qx q) + r (qy q * qy q)) + r (qz q * qz q)) + r (qw q * qw q))"

text \<open>
  \<open>Matrix3x3::setRotation\<close> scales by \<open>s = 2 / d\<close> with \<open>d = q.length2()\<close>. Its
  assertion \<open>d != 0\<close> is compiled out in release builds; with \<open>d = 0\<close> the quotient is
  infinite and the entries of the matrix are infinite or NaN. The result \<open>None\<close> stands
  for such a matrix.
\<close>

definition setRotation :: "rounding \<Rightarrow> Quaternion \<Rightarrow> Matrix3x3 option" where
  "setRotation r q =
     (let d = length2_Quaternion r q in
      if d = 0 then None
      else
        let s = r (2 / d);
            xs = r (qx q * s); ys = r (qy q * s); zs = r (qz q * s);
            wx = r (qw q * xs); wy = r (qw q * ys); wz = r (qw q * zs);
            xx = r (qx q * xs); xy = r (qx q * ys); xz = r (qx q * zs);
            yy = r (qy q * ys); yz = r (qy q * zs); zz = r (qz q * zs)
        in Some (Matrix3x3
             (Vector3 (r (1 - r (yy + zz))) (r (xy - wz)) (r (xz + wy)))
             (Vector3 (r (xy + wz)) (r (1 - r (xx + zz))) (r (yz - wx)))
             (Vector3 (r (xz - wy)) (r (yz + wx)) (r (1 - r (xx + yy))))))"

definition transpose_Matrix3x3 :: "Matrix3x3 \<Rightarrow> Matrix3x3" where
  "transpose_Matrix3x3 m =
     Matrix3x3
       (Vector3 (getX (row0 m)) (getX (row1 m)) (getX (row2 m)))
       (Vector3 (getY (row0 m)) (getY (row1 m)) (getY (row2 m)))
       (Vector3 (getZ (row0 m)) (getZ (row1 m)) (getZ (row2 m)))"

definition tdotx :: "rounding \<Rightarrow> Matrix3x3 \<Rightarrow> Vector3 \<Rightarrow> real" where
  "tdotx r m v =
     r (r (r (getX (row0 m) * getX v) + r (getX (row1 m) * getY v)) + r (getX (row2 m) * getZ v))"

definition tdoty :: "rounding \<Rightarrow> Matrix3x3 \<Rightarrow> Vector3 \<Rightarrow> real" where
  "tdoty r m v =
     r (r (r (getY (row0 m) * getX v) + r (getY (row1 m) * getY v)) + r (getY (row2 m) * getZ v))"

definition tdotz :: "rounding \<Rightarrow> Matrix3x3 \<Rightarrow> Vector3 \<Rightarrow> real" where
  "tdotz r m v =
     r (r (r (getZ (row0 m) * getX v) + r (getZ (row1 m) * getY v)) + r (getZ (row2 m) * getZ v))"

definition mult_Matrix3x3 :: "rounding \<Rightarrow> Matrix3x3 \<Rightarrow> Matrix3x3 \<Rightarrow> Matrix3x3" where
  "mult_Matrix3x3 r m1 m2 =
     Matrix3x3
       (Vector3 (tdotx r m2 (row0 m1)) (tdoty r m2 (row0 m1)) (tdotz r m2 (row0 m1)))
       (Vector3 (tdotx r m2 (row1 m1)) (tdoty r m2 (row1 m1)) (tdotz r m2 (row1 m1)))
       (Vector3 (tdotx r m2 (row2 m1)) (tdoty r m2 (row2 m1)) (tdotz r m2 (row2 m1)))"

definition mult_Matrix3x3_Vector3 :: "rounding \<Rightarrow> Matrix3x3 \<Rightarrow> Vector3 \<Rightarrow> Vector3" where
  "mult_Matrix3x3_Vector3 r m v =
     Vector3 (dot r (row0 m) v) (dot r (row1 m) v) (dot r (row2 m) v)"

text \<open>\<open>Transform::operator()\<close>, \<open>Transform::operator*\<close> and \<open>Transform::inverse\<close>.\<close>

definition apply_Transform :: "rounding \<Rightarrow> Transform \<Rightarrow> Vector3 \<Rightarrow> Vector3" where
  "apply_Transform r t v =
     Vector3 (r (dot r (row0 (m_basis t)) v + getX (m_origin t)))
             (r (dot r (row1 (m_basis t)) v + getY (m_origin t)))
             (r (dot r (row2 (m_basis t)) v + getZ (m_origin t)))"

definition mult_Transform :: "rounding \<Rightarrow> Transform \<Rightarrow> Transform \<Rightarrow> Transform" where
  "mult_Transform r t1 t2 =
     \<lparr> m_basis = mult_Matrix3x3 r (m_basis t1) (m_basis t2),
       m_origin = apply_Transform r t1 (m_origin t2) \<rparr>"

definition inverse_Transform :: "rounding \<Rightarrow> Transform \<Rightarrow> Transform" where
  "inverse_Transform r t =
     (let inv = transpose_Matrix3x3 (m_basis t)
      in \<lparr> m_basis = inv, m_origin = mult_Matrix3x3_Vector3 r inv (neg_Vector3 (m_origin t)) \<rparr>)"

definition getIdentity :: Transform where
  "getIdentity =
     \<lparr> m_basis = Matrix3x3 (Vector3 1 0 0) (Vector3 0 1 0) (Vector3 0 0 1),
       m_origin = Vector3 0 0 0 \<rparr>"


text \<open>The entries of a transform that a rounding leaves as they are: they are doubles.\<close>

definition fixes_Vector3 :: "rounding \<Rightarrow> Vector3 \<Rightarrow> bool" where
  "fixes_Vector3 r v \<longleftrightarrow> r (getX v) = getX v \<and> r (getY v) = getY v \<and> r (getZ v) = getZ v"

definition fixes_Transform :: "rounding \<Rightarrow> Transform \<Rightarrow> bool" where
  "fixes_Transform r t \<longleftrightarrow>
     fixes_Vector3 r (row0 (m_basis t)) \<and> fixes_Vector3 r (row1 (m_basis t)) \<and>
     fixes_Vector3 r (row2 (m_basis t)) \<and> fixes_Vector3 r (m_origin t)"

subsection \<open>Messages and pose-graph data\<close>

text \<open>\<open>geometry_msgs::Pose\<close>, and \<open>tf2::fromMsg\<close> from a pose message to a transform.\<close>

record Pose =
  position :: Vector3
  orientation :: Quaternion

definition fromMsg :: "rounding \<Rightarrow> Pose \<Rightarrow> Transform option" where
  "fromMsg r msg =
     (case setRotation r (orientation msg) of
        None \<Rightarrow> None
      | Some b \<Rightarrow> Some \<lparr> m_basis = b, m_origin = position msg \<rparr>)"

text \<open>
  \<open>transform::Rigid3d\<close> with its translation and rotation, and the two payloads the
  callback reads: \<open>SubmapPose\<close> (field \<open>pose\<close>) and \<open>TrajectoryNodePose\<close> (field
  \<open>global_pose\<close>).
\<close>

record Rigid3d =
  translation :: Vector3
  rotation :: Quaternion

record SubmapPose =
  version :: int
  pose :: Rigid3d

record TrajectoryNodePose =
  global_pose :: Rigid3d

text \<open>
  A \<open>MapById\<close> is the sequence of its entries in iteration order, which is the order of
  the ids (trajectory id first, then index). \<open>BeginOfTrajectory t\<close> positions the iterator
  with \<open>lower_bound\<close> on the trajectory id and then skips trajectories without data, so
  it stands at the first entry whose trajectory id is at least \<open>t\<close>; the iterator is the
  remaining sequence, and the end iterator is the empty one.
\<close>

datatype 'd IdDataReference =
  IdDataReference (trajectory_id: int) (id_index: int) (data: 'd)

type_synonym 'd MapById = "'d IdDataReference list"

definition BeginOfTrajectory :: "int \<Rightarrow> 'd MapById \<Rightarrow> 'd MapById" where
  "BeginOfTrajectory t m = dropWhile (\<lambda>e. trajectory_id e < t) m"

subsection \<open>Height recovery: the scan over the submap poses\<close>

definition submap_origin :: "SubmapPose IdDataReference \<Rightarrow> Vector3" where
  "submap_origin itr =
     Vector3 (getX (translation (pose (data itr))))
             (getY (translation (pose (data itr))))
             (getZ (translation (pose (data itr))))"

definition delta_pos :: "rounding \<Rightarrow> Transform \<Rightarrow> SubmapPose IdDataReference \<Rightarrow> Vector3" where
  "delta_pos r map_tf itr = setZ (minus_Vector3 r (submap_origin itr) (m_origin map_tf)) 0"

text \<open>
  \<open>delta_pos.length()\<close>, the distance the code computes and compares (lines 104 and 107
  call it on the same vector).
\<close>

definition delta_length :: "rounding \<Rightarrow> Transform \<Rightarrow> SubmapPose IdDataReference \<Rightarrow> real" where
  "delta_length r map_tf itr = length_Vector3 r (delta_pos r map_tf itr)"

text \<open>The body of the \<open>for\<close> loop, on the pair of \<open>map_tf\<close> and \<open>min_dist\<close>.\<close>

fun scan_submap_poses ::
  "rounding \<Rightarrow> SubmapPose MapById \<Rightarrow> Transform \<Rightarrow> real \<Rightarrow> Transform \<times> real" where
  "scan_submap_poses r [] map_tf min_dist = (map_tf, min_dist)"
| "scan_submap_poses r (itr # rest) map_tf min_dist =
     (if delta_length r map_tf itr < min_dist
      then scan_submap_poses r rest
             (map_tf\<lparr>m_origin := setZ (m_origin map_tf) (getZ (submap_origin itr))\<rparr>)
             (delta_length r map_tf itr)
      else scan_submap_poses r rest map_tf min_dist)"

definition height_recovery :: "rounding \<Rightarrow> Transform \<Rightarrow> SubmapPose MapById \<Rightarrow> Transform" where
  "height_recovery r map_tf submap_poses =
     fst (scan_submap_poses r submap_poses map_tf 1000000)"

subsection \<open>The callback\<close>

type_synonym int32 = "32 word"
type_synonym uint8 = "8 word"

text \<open>\<open>cartographer_ros_msgs::StatusCode::OK\<close>.\<close>

definition StatusCode_OK :: uint8 where
  "StatusCode_OK = 0"

text \<open>
  The requests the callback sends. The initial pose of a start request is
  \<open>relative_initpose_tf\<close>, the transform that \<open>tf2::toMsg\<close> then writes into the
  message; \<open>StartTrajectory_not_finite\<close> is the start request whose initial pose has
  entries that are infinite or NaN, which the code sends all the same after it built a
  rotation from a quaternion of length 0. Each \<open>LOG(ERROR)\<close> is an event of the log.

  One run of the callback ends in one of two ways: it returns, or the process stops at the
  \<open>CHECK\<close> of the iterator's dereference.
\<close>

datatype request =
  FinishTrajectory (finish_trajectory_id: int32)
| StartTrajectory (configuration_directory: string) (configuration_basename: string)
    (relative_to_trajectory_id: int32) (use_initial_pose: bool) (initial_pose: Transform)
| StartTrajectory_not_finite string string int32 bool

datatype log_event =
  FailedToCallFinish
| ErrorFinishing uint8
| FailedToCallStart
| ErrorStarting uint8

datatype exit_kind = Returned | CheckFailed

text \<open>
  What one run reads from outside: the two flags, what \<open>call\<close> returned and the status
  code in the response for each of the two services, and the two snapshots of the pose
  graph. What it leaves behind: the counter, the requests in the order sent, the log, and
  how it ended.
\<close>

record Environment =
  FLAGS_configuration_directory :: string
  FLAGS_configuration_basename :: string
  finish_call_ok :: bool
  finish_status_code :: uint8
  node_poses :: "TrajectoryNodePose MapById"
  submap_poses :: "SubmapPose MapById"
  start_call_ok :: bool
  start_status_code :: uint8

record Outcome =
  current_trajectory_id :: int32
  requests :: "request list"
  log_events :: "log_event list"
  ending :: exit_kind

text \<open>
  Lines 80 to 82 build the transform of the reference origin from the global pose of the
  node; line 111 composes the relative initial pose.
\<close>

definition traj_ref_tf :: "rounding \<Rightarrow> Rigid3d \<Rightarrow> Transform option" where
  "traj_ref_tf r traj_ref_pose =
     (case setRotation r
             (Quaternion (qx (rotation traj_ref_pose)) (qy (rotation traj_ref_pose))
                (qz (rotation traj_ref_pose)) (qw (rotation traj_ref_pose))) of
        None \<Rightarrow> None
      | Some b \<Rightarrow>
          Some \<lparr> m_basis = b,
                 m_origin = Vector3 (getX (translation traj_ref_pose))
                                    (getY (translation traj_ref_pose))
                                    (getZ (translation traj_ref_pose)) \<rparr>)"

definition relative_initpose_tf ::
  "rounding \<Rightarrow> Transform \<Rightarrow> Transform \<Rightarrow> SubmapPose MapById \<Rightarrow> Transform" where
  "relative_initpose_tf r ref_tf map_tf submaps =
     mult_Transform r (inverse_Transform r ref_tf) (height_recovery r map_tf submaps)"

text \<open>The log entries of the start-trajectory call, lines 123 to 131.\<close>

definition start_log :: "Environment \<Rightarrow> log_event list" where
  "start_log env =
     (if \<not> start_call_ok env then [FailedToCallStart] else [])
     @ (if start_status_code env \<noteq> StatusCode_OK
        then [ErrorStarting (start_status_code env)] else [])"

text \<open>
  The callback, from the value of \<open>current_trajectory_id_\<close> on entry. The counter is
  incremented as the finish request is filled in; a failed call is only logged, and the
  status code of the response decides whether the callback goes on.
\<close>

definition move_base_simple_callback ::
  "rounding \<Rightarrow> int32 \<Rightarrow> Environment \<Rightarrow> Pose \<Rightarrow> Outcome" where
  "move_base_simple_callback r current_id env msg =
     (let finish = FinishTrajectory current_id;
          counter = current_id + 1;
          log1 = (if \<not> finish_call_ok env then [FailedToCallFinish] else []);
          not_finite = StartTrajectory_not_finite (FLAGS_configuration_directory env)
                         (FLAGS_configuration_basename env) 0 True
      in
      if finish_status_code env \<noteq> StatusCode_OK then
        \<lparr> current_trajectory_id = counter, requests = [finish],
          log_events = log1 @ [ErrorFinishing (finish_status_code env)], ending = Returned \<rparr>
      else
        case BeginOfTrajectory 0 (node_poses env) of
          [] \<Rightarrow>
            \<lparr> current_trajectory_id = counter, requests = [finish], log_events = log1,
              ending = CheckFailed \<rparr>
        | node # _ \<Rightarrow>
            (case traj_ref_tf r (global_pose (data node)) of
               None \<Rightarrow>
                 \<lparr> current_trajectory_id = counter, requests = [finish, not_finite],
                   log_events = log1 @ start_log env, ending = Returned \<rparr>
             | Some ref_tf \<Rightarrow>
                 (case fromMsg r msg of
                    None \<Rightarrow>
                      \<lparr> current_trajectory_id = counter, requests = [finish, not_finite],
                        log_events = log1 @ start_log env, ending = Returned \<rparr>
                  | Some map_tf \<Rightarrow>
                      \<lparr> current_trajectory_id = counter,
                        requests =
                          [finish,
                           StartTrajectory (FLAGS_configuration_directory env)
                             (FLAGS_configuration_basename env) 0 True
                             (relative_initpose_tf r ref_tf map_tf (submap_poses env))],
                        log_events = log1 @ start_log env,
                        ending = Returned \<rparr>)))"

subsection \<open>The distance of the specification, and inputs for concrete runs\<close>

text \<open>
  The specification measures how close a fragment is to the hint by the Euclidean distance
  of the two positions projected onto the horizontal plane. This definition follows those
  words; \<open>delta_length_exact\<close> below shows that the code computes it when nothing is
  rounded.
\<close>

definition horizontal_distance :: "Vector3 \<Rightarrow> Vector3 \<Rightarrow> real" where
  "horizontal_distance p q = sqrt ((getX p - getX q)\<^sup>2 + (getY p - getY q)\<^sup>2)"

text \<open>
  A submap entry with id \<open>(t, i)\<close> placed at \<open>(x, y, z)\<close> without rotation, and the
  transform of a hint at \<open>(x, y, z)\<close> without rotation.
\<close>

definition submap_at :: "int \<Rightarrow> int \<Rightarrow> real \<Rightarrow> real \<Rightarrow> real \<Rightarrow> SubmapPose IdDataReference" where
  "submap_at t i x y z =
     IdDataReference t i
       \<lparr> version = 0,
         pose = \<lparr> translation = Vector3 x y z, rotation = Quaternion 0 0 0 1 \<rparr> \<rparr>"

definition hint_tf :: "real \<Rightarrow> real \<Rightarrow> real \<Rightarrow> Transform" where
  "hint_tf x y z = \<lparr> m_basis = m_basis getIdentity, m_origin = Vector3 x y z \<rparr>"

text \<open>
  A node entry with id \<open>(t, i)\<close> and a given global pose, the message of a hint at
  \<open>(x, y, z)\<close> without rotation, and an environment in which the start-trajectory call
  succeeds.
\<close>

definition node_at :: "int \<Rightarrow> int \<Rightarrow> Vector3 \<Rightarrow> Quaternion \<Rightarrow> TrajectoryNodePose IdDataReference" where
  "node_at t i p q = IdDataReference t i \<lparr> global_pose = \<lparr> translation = p, rotation = q \<rparr> \<rparr>"

definition hint_msg :: "real \<Rightarrow> real \<Rightarrow> real \<Rightarrow> Pose" where
  "hint_msg x y z = \<lparr> position = Vector3 x y z, orientation = Quaternion 0 0 0 1 \<rparr>"

definition env_of ::
  "bool \<Rightarrow> uint8 \<Rightarrow> TrajectoryNodePose MapById \<Rightarrow> SubmapPose MapById \<Rightarrow> Environment" where
  "env_of ok code nodes submaps =
     \<lparr> FLAGS_configuration_directory = ''cfg'', FLAGS_configuration_basename = ''robot.lua'',
       finish_call_ok = ok, finish_status_code = code,
       node_poses = nodes, submap_poses = submaps,
       start_call_ok = True, start_status_code = StatusCode_OK \<rparr>"

section \<open>Properties\<close>

subsection \<open>Rounding to a double\<close>

lemma round_half_even_of_int: "round_half_even (of_int n) = n"
  by (simp add: round_half_even_def)

lemma round_half_even_ge_floor: "\<lfloor>y\<rfloor> \<le> round_half_even y"
  by (simp add: round_half_even_def Let_def)


text \<open>A multiple of its own unit in the last place is a double, and rounding keeps it.\<close>

lemma round_double_multiple:
  assumes "x = of_int m * 2 powr of_int (ulp_exponent x)"
  shows "round_double x = x"
proof (cases "x = 0")
  case True
  then show ?thesis by (simp add: round_double_def)
next
  case False
  have "2 powr of_int (ulp_exponent x) \<noteq> (0::real)"
    by simp
  then have "x / 2 powr of_int (ulp_exponent x) = of_int m"
    using assms by (metis nonzero_mult_div_cancel_right)
  then show ?thesis
    using False assms by (simp add: round_double_def round_half_even_of_int)
qed

lemma ulp_exponent_int:
  fixes n :: int
  assumes "n \<noteq> 0" and "\<bar>n\<bar> < 2 ^ 53"
  shows "- 52 \<le> ulp_exponent (of_int n)" and "ulp_exponent (of_int n) \<le> 0"
proof -
  have "1 \<le> \<bar>n\<bar>"
    using assms(1) by linarith
  then have "(1::real) \<le> of_int \<bar>n\<bar>"
    by (simp only: of_int_1_le_iff)
  then have 1: "(1::real) \<le> \<bar>of_int n\<bar>"
    by simp
  have 2: "\<bar>of_int n :: real\<bar> < 2 ^ 53"
    using assms(2) by (metis of_int_abs of_int_less_numeral_power_cancel_iff)
  have "0 \<le> log 2 \<bar>of_int n :: real\<bar>"
    using 1 by simp
  then have lo: "0 \<le> \<lfloor>log 2 \<bar>of_int n :: real\<bar>\<rfloor>"
    by simp
  have "log 2 \<bar>of_int n :: real\<bar> < 53"
    using 1 2 by (simp add: log_less_iff powr_realpow [symmetric])
  then have hi: "\<lfloor>log 2 \<bar>of_int n :: real\<bar>\<rfloor> \<le> 52"
    by (simp add: floor_le_iff)
  from lo hi show "- 52 \<le> ulp_exponent (of_int n)" and "ulp_exponent (of_int n) \<le> 0"
    by (simp_all add: ulp_exponent_def)
qed

text \<open>Every integer below \<open>2 ^ 53\<close> in absolute value is a double.\<close>

lemma round_double_of_int:
  fixes n :: int
  assumes "\<bar>n\<bar> < 2 ^ 53"
  shows "round_double (of_int n) = of_int n"
proof (cases "n = 0")
  case True
  then show ?thesis by (simp add: round_double_def)
next
  case False
  define k where "k = nat (- ulp_exponent (of_int n))"
  from ulp_exponent_int [OF False assms] have k: "ulp_exponent (of_int n) = - int k"
    by (simp add: k_def)
  have p: "2 powr (- real k) = 1 / (2::real) ^ k"
    by (simp add: powr_minus powr_realpow divide_inverse)
  have "(of_int n :: real) = of_int (n * 2 ^ k) * 2 powr of_int (ulp_exponent (of_int n))"
    by (simp add: k p)
  then show ?thesis
    by (rule round_double_multiple)
qed

lemma round_double_0: "round_double 0 = 0"
  by (simp add: round_double_def)

lemma round_double_1: "round_double 1 = 1"
  using round_double_of_int [of 1] by simp

lemma round_double_minus_1: "round_double (- 1) = - 1"
  using round_double_of_int [of "- 1"] by simp

lemma round_double_numeral:
  "(numeral w :: int) < 9007199254740992 \<Longrightarrow> round_double (numeral w) = numeral w"
  using round_double_of_int [of "numeral w"] by simp

lemma round_double_neg_numeral:
  "(numeral w :: int) < 9007199254740992 \<Longrightarrow> round_double (- numeral w) = - numeral w"
  using round_double_of_int [of "- numeral w"] by simp

lemmas round_double_small =
  round_double_0 round_double_1 round_double_minus_1 round_double_numeral
  round_double_neg_numeral




text \<open>From 1 on, rounding gives a positive double.\<close>

lemma round_double_pos:
  assumes "1 \<le> x"
  shows "0 < round_double x"
proof -
  have x: "0 < x" using assms by simp
  have "0 \<le> log 2 x" using assms by simp
  then have fl: "0 \<le> \<lfloor>log 2 x\<rfloor>" by simp
  then have "max \<lfloor>log 2 x\<rfloor> (- 1022) = \<lfloor>log 2 x\<rfloor>"
    by linarith
  then have u: "ulp_exponent x = \<lfloor>log 2 x\<rfloor> - 52"
    using x by (simp add: ulp_exponent_def)
  let ?u = "(2::real) powr of_int (ulp_exponent x)"
  have "(2::real) powr of_int \<lfloor>log 2 x\<rfloor> \<le> 2 powr (log 2 x)"
    by simp
  also have "\<dots> = x" using x by simp
  finally have "(2::real) powr of_int \<lfloor>log 2 x\<rfloor> \<le> x" .
  moreover have "(2::real) powr of_int \<lfloor>log 2 x\<rfloor> = 2 powr 52 * ?u"
    by (simp add: u powr_diff)
  ultimately have "(2::real) powr 52 \<le> x / ?u"
    by (simp add: pos_le_divide_eq)
  moreover have "(1::real) \<le> 2 powr 52"
    by simp
  ultimately have "1 \<le> x / ?u"
    by linarith
  then have "1 \<le> \<lfloor>x / ?u\<rfloor>"
    by simp
  with round_half_even_ge_floor [of "x / ?u"] have "0 < round_half_even (x / ?u)"
    by linarith
  then show ?thesis
    using x by (simp add: round_double_def)
qed


lemma sqrt_4e12: "sqrt 4000000000000 = 2000000"
  by (rule real_sqrt_unique) simp_all

subsection \<open>The scan\<close>

lemma delta_pos_setZ:
  "delta_pos r (map_tf\<lparr>m_origin := setZ (m_origin map_tf) z\<rparr>) itr = delta_pos r map_tf itr"
  by (simp add: delta_pos_def setZ_def minus_Vector3_def)

lemma delta_length_setZ:
  "delta_length r (map_tf\<lparr>m_origin := setZ (m_origin map_tf) z\<rparr>) itr = delta_length r map_tf itr"
  by (simp add: delta_length_def delta_pos_setZ)

lemma setZ_setZ: "setZ (setZ v a) b = setZ v b"
  by (simp add: setZ_def)

lemma setZ_getZ: "setZ v (getZ v) = v"
  by (simp add: setZ_def)

lemma getZ_submap_origin: "getZ (submap_origin f) = getZ (translation (pose (data f)))"
  by (simp add: submap_origin_def)

text \<open>Without rounding, the computed distance is the horizontal distance of the specification.\<close>

lemma delta_length_exact:
  "delta_length exact map_tf itr =
     horizontal_distance (translation (pose (data itr))) (m_origin map_tf)"
  by (simp add: delta_length_def length_Vector3_def length2_def dot_def delta_pos_def setZ_def
      minus_Vector3_def submap_origin_def horizontal_distance_def power2_eq_square exact_def)



lemma scan_submap_poses_cases:
  "(\<forall>g \<in> set submaps. min_dist \<le> delta_length r map_tf g) \<and>
     scan_submap_poses r submaps map_tf min_dist = (map_tf, min_dist)
   \<or> (\<exists>f \<in> set submaps.
        delta_length r map_tf f < min_dist \<and>
        (\<forall>g \<in> set submaps. delta_length r map_tf f \<le> delta_length r map_tf g) \<and>
        scan_submap_poses r submaps map_tf min_dist =
          (map_tf\<lparr>m_origin := setZ (m_origin map_tf) (getZ (submap_origin f))\<rparr>,
           delta_length r map_tf f))"
proof (induction submaps arbitrary: map_tf min_dist)
  case Nil
  then show ?case by simp
next
  case (Cons a rest)
  let ?d = "\<lambda>g. delta_length r map_tf g"
  show ?case
  proof (cases "?d a < min_dist")
    case True
    let ?t = "map_tf\<lparr>m_origin := setZ (m_origin map_tf) (getZ (submap_origin a))\<rparr>"
    from Cons.IH [of "?d a" ?t]
    consider (far) "\<forall>g \<in> set rest. ?d a \<le> ?d g" "scan_submap_poses r rest ?t (?d a) = (?t, ?d a)"
      | (near) f where "f \<in> set rest" "?d f < ?d a" "\<forall>g \<in> set rest. ?d f \<le> ?d g"
          "scan_submap_poses r rest ?t (?d a) =
            (map_tf\<lparr>m_origin := setZ (m_origin map_tf) (getZ (submap_origin f))\<rparr>, ?d f)"
      by (auto simp: delta_length_setZ setZ_setZ)
    then show ?thesis
    proof cases
      case far
      with True show ?thesis by auto
    next
      case near
      with True show ?thesis by (intro disjI2 bexI [of _ f]) auto
    qed
  next
    case False
    from Cons.IH [of min_dist map_tf]
    consider (far) "\<forall>g \<in> set rest. min_dist \<le> ?d g"
        "scan_submap_poses r rest map_tf min_dist = (map_tf, min_dist)"
      | (near) f where "f \<in> set rest" "?d f < min_dist" "\<forall>g \<in> set rest. ?d f \<le> ?d g"
          "scan_submap_poses r rest map_tf min_dist =
            (map_tf\<lparr>m_origin := setZ (m_origin map_tf) (getZ (submap_origin f))\<rparr>, ?d f)"
      by auto
    then show ?thesis
    proof cases
      case far
      with False show ?thesis by auto
    next
      case near
      with False show ?thesis by (intro disjI2 bexI [of _ f]) auto
    qed
  qed
qed

lemma scan_submap_poses_bound:
  assumes "scan_submap_poses r submaps map_tf min_dist = (t, m)"
  shows "m \<le> min_dist"
    and "\<forall>g \<in> set submaps. m \<le> delta_length r map_tf g"
    and "\<exists>z. t = map_tf\<lparr>m_origin := setZ (m_origin map_tf) z\<rparr>"
proof -
  from scan_submap_poses_cases [of submaps min_dist r map_tf] assms
  consider (far) "\<forall>g \<in> set submaps. min_dist \<le> delta_length r map_tf g"
      "t = map_tf" "m = min_dist"
    | (near) f where "delta_length r map_tf f < min_dist"
      "\<forall>g \<in> set submaps. delta_length r map_tf f \<le> delta_length r map_tf g"
      "t = map_tf\<lparr>m_origin := setZ (m_origin map_tf) (getZ (submap_origin f))\<rparr>"
      "m = delta_length r map_tf f"
    by auto
  then have "m \<le> min_dist \<and> (\<forall>g \<in> set submaps. m \<le> delta_length r map_tf g)
     \<and> (\<exists>z. t = map_tf\<lparr>m_origin := setZ (m_origin map_tf) z\<rparr>)"
  proof cases
    case far
    have "map_tf = map_tf\<lparr>m_origin := setZ (m_origin map_tf) (getZ (m_origin map_tf))\<rparr>"
      by (simp add: setZ_getZ)
    with far show ?thesis by blast
  next
    case near
    then show ?thesis by auto
  qed
  then show "m \<le> min_dist"
    and "\<forall>g \<in> set submaps. m \<le> delta_length r map_tf g"
    and "\<exists>z. t = map_tf\<lparr>m_origin := setZ (m_origin map_tf) z\<rparr>"
    by blast+
qed



lemma scan_selects_nearest:
  assumes "\<exists>f \<in> set submaps. delta_length r map_tf f < min_dist"
  shows "\<exists>f \<in> set submaps.
           (\<forall>g \<in> set submaps. delta_length r map_tf f \<le> delta_length r map_tf g) \<and>
           scan_submap_poses r submaps map_tf min_dist =
             (map_tf\<lparr>m_origin := setZ (m_origin map_tf) (getZ (translation (pose (data f))))\<rparr>,
              delta_length r map_tf f)"
proof -
  from assms have "\<not> (\<forall>g \<in> set submaps. min_dist \<le> delta_length r map_tf g)"
    by (auto simp: not_le)
  with scan_submap_poses_cases [of submaps min_dist r map_tf]
  show ?thesis
    by (simp only: getZ_submap_origin) blast
qed

lemma height_recovery_shape:
  "\<exists>z. height_recovery r map_tf submaps = map_tf\<lparr>m_origin := setZ (m_origin map_tf) z\<rparr>"
  using scan_submap_poses_bound(3) [of r submaps map_tf 1000000]
  by (cases "scan_submap_poses r submaps map_tf 1000000") (simp add: height_recovery_def)


subsection \<open>Height recovery\<close>

text \<open>
  Claim C4. Height recovery is a total function of the hint and the snapshot: for every
  snapshot (in particular every one with at least one fragment) and in every arithmetic it
  returns a transform, and that transform has the basis (rotation) and the x and y of the
  hint; only z can differ.
\<close>

theorem height_recovery_keeps_xy_rotation:
  "\<exists>t. height_recovery r map_tf submaps = t \<and>
       m_basis t = m_basis map_tf \<and>
       getX (m_origin t) = getX (m_origin map_tf) \<and>
       getY (m_origin t) = getY (m_origin map_tf)"
proof -
  obtain z where "height_recovery r map_tf submaps = map_tf\<lparr>m_origin := setZ (m_origin map_tf) z\<rparr>"
    using height_recovery_shape by blast
  then show ?thesis by (simp add: setZ_def)
qed



subsection \<open>The nearest fragment and ties\<close>

text \<open>
  Claim C1 says that the z of the nearest fragment is recovered from every non-empty
  snapshot, and the comment at lines 102 and 103 says the same of the code. The scan
  starts from the best distance \<open>1e6\<close> and not from infinity, so the code misses it: with
  the hint at the origin and a single fragment at \<open>(2000000, 0, 5)\<close>, that fragment is
  the nearest one, its computed distance is \<open>2000000\<close>, and the recovered z is still the
  0 of the hint.
\<close>

theorem nearest_fragment_beyond_start_distance:
  "[submap_at 0 0 2000000 0 5] \<noteq> [] \<and>
   delta_length round_double (hint_tf 0 0 0) (submap_at 0 0 2000000 0 5) = 2000000 \<and>
   getZ (translation (pose (data (submap_at 0 0 2000000 0 5)))) = 5 \<and>
   getZ (m_origin (height_recovery round_double (hint_tf 0 0 0) [submap_at 0 0 2000000 0 5])) = 0"
proof -
  have d: "delta_length round_double (hint_tf 0 0 0) (submap_at 0 0 2000000 0 5) = 2000000"
    by (simp add: delta_length_def length_Vector3_def length2_def dot_def delta_pos_def setZ_def
        minus_Vector3_def submap_origin_def submap_at_def hint_tf_def round_double_small sqrt_4e12)
  then have "height_recovery round_double (hint_tf 0 0 0) [submap_at 0 0 2000000 0 5] = hint_tf 0 0 0"
    by (simp add: height_recovery_def)
  with d show ?thesis
    by (simp add: hint_tf_def submap_at_def)
qed



subsection \<open>The counter and the requests of the callback\<close>

lemma sint_succ:
  fixes c :: int32
  assumes "sint c < 2147483647"
  shows "sint (c + 1) = sint c + 1"
proof -
  have "- (2 ^ 31) \<le> sint c"
    using sint_ge [of c] by simp
  with assms have "signed_take_bit 31 (sint c + 1) = sint c + 1"
    by (intro signed_take_bit_int_eq_self) simp_all
  then show ?thesis
    by (simp add: sint_word_add)
qed

lemma callback_counter:
  "current_trajectory_id (move_base_simple_callback r c env msg) = c + 1"
  by (simp add: move_base_simple_callback_def Let_def split: list.splits option.splits)

lemma callback_first_request:
  "hd (requests (move_base_simple_callback r c env msg)) = FinishTrajectory c"
  by (simp add: move_base_simple_callback_def Let_def split: list.splits option.splits)

lemma callback_finish_error:
  "finish_status_code env \<noteq> StatusCode_OK \<Longrightarrow>
   requests (move_base_simple_callback r c env msg) = [FinishTrajectory c] \<and>
   ending (move_base_simple_callback r c env msg) = Returned"
  by (simp add: move_base_simple_callback_def Let_def)

text \<open>
  Claim C10. Every run of the callback leaves the counter of trajectory ids one higher
  than it found it, whatever the finish-trajectory call returned, and the finish request
  carries the value from before the increment. When the status of the finish response is
  not OK the callback returns with that single request, the counter already advanced.
  Below the largest \<open>int\<close> the increment is the one of the integers.
\<close>

theorem counter_incremented_on_every_invocation:
  "current_trajectory_id (move_base_simple_callback r c env msg) = c + 1 \<and>
   hd (requests (move_base_simple_callback r c env msg)) = FinishTrajectory c \<and>
   (finish_status_code env \<noteq> StatusCode_OK \<longrightarrow>
      requests (move_base_simple_callback r c env msg) = [FinishTrajectory c] \<and>
      ending (move_base_simple_callback r c env msg) = Returned) \<and>
   (sint c < 2147483647 \<longrightarrow>
      sint (current_trajectory_id (move_base_simple_callback r c env msg)) = sint c + 1)"
  using callback_counter [of r c env msg] callback_first_request [of r c env msg]
    callback_finish_error [of env r c msg] sint_succ [of c]
  by simp

theorem counter_incremented_on_every_invocation_witness:
  "finish_status_code (env_of False 1 [] []) \<noteq> StatusCode_OK \<and>
   sint (1 :: int32) < 2147483647 \<and>
   current_trajectory_id
     (move_base_simple_callback round_double 1 (env_of False 1 [] []) (hint_msg 2 3 0)) = 2 \<and>
   requests (move_base_simple_callback round_double 1 (env_of False 1 [] []) (hint_msg 2 3 0))
     = [FinishTrajectory 1] \<and>
   sint (current_trajectory_id
     (move_base_simple_callback round_double 1 (env_of False 1 [] []) (hint_msg 2 3 0))) = 2"
  using counter_incremented_on_every_invocation
    [of round_double 1 "env_of False 1 [] []" "hint_msg 2 3 0"]
  by (simp add: env_of_def StatusCode_OK_def)

lemma callback_proceeds:
  assumes "finish_status_code env = StatusCode_OK"
    and "BeginOfTrajectory 0 (node_poses env) = node # rest"
    and "traj_ref_tf r (global_pose (data node)) = Some ref_tf"
    and "fromMsg r msg = Some map_tf"
  shows "requests (move_base_simple_callback r c env msg) =
           [FinishTrajectory c,
            StartTrajectory (FLAGS_configuration_directory env) (FLAGS_configuration_basename env)
              0 True (mult_Transform r (inverse_Transform r ref_tf)
                        (height_recovery r map_tf (submap_poses env)))]"
    and "ending (move_base_simple_callback r c env msg) = Returned"
  using assms by (simp_all add: move_base_simple_callback_def Let_def relative_initpose_tf_def)

text \<open>
  Without a node from trajectory 0 on, the run stops at the dereference, the finish
  request sent and nothing else; after a rotation from a quaternion of length 0 the start
  request is sent all the same.
\<close>

lemma callback_no_origin:
  assumes "finish_status_code env = StatusCode_OK"
    and "BeginOfTrajectory 0 (node_poses env) = []"
  shows "requests (move_base_simple_callback r c env msg) = [FinishTrajectory c]"
    and "ending (move_base_simple_callback r c env msg) = CheckFailed"
  using assms by (simp_all add: move_base_simple_callback_def Let_def)

lemma callback_not_finite:
  assumes "finish_status_code env = StatusCode_OK"
    and "BeginOfTrajectory 0 (node_poses env) = node # rest"
    and "traj_ref_tf r (global_pose (data node)) = None \<or> fromMsg r msg = None"
  shows "requests (move_base_simple_callback r c env msg) =
           [FinishTrajectory c,
            StartTrajectory_not_finite (FLAGS_configuration_directory env)
              (FLAGS_configuration_basename env) 0 True]"
    and "ending (move_base_simple_callback r c env msg) = Returned"
  using assms
  by (auto simp: move_base_simple_callback_def Let_def split: option.splits)

lemma setRotation_unit_w:
  assumes "r 0 = 0" and "r 1 = 1" and "r 2 = 2"
  shows "setRotation r (Quaternion 0 0 0 1) = Some (m_basis getIdentity)"
  using assms by (simp add: setRotation_def length2_Quaternion_def getIdentity_def Let_def)

lemma fromMsg_hint_msg:
  assumes "r 0 = 0" and "r 1 = 1" and "r 2 = 2"
  shows "fromMsg r (hint_msg x y z) = Some (hint_tf x y z)"
  using assms by (simp add: fromMsg_def hint_msg_def hint_tf_def setRotation_unit_w)

lemma traj_ref_tf_unrotated:
  assumes "r 0 = 0" and "r 1 = 1" and "r 2 = 2"
  shows "traj_ref_tf r \<lparr> translation = Vector3 x y z, rotation = Quaternion 0 0 0 1 \<rparr>
           = Some (hint_tf x y z)"
  using assms by (simp add: traj_ref_tf_def setRotation_unit_w hint_tf_def)


lemma plain_round_double: "round_double 0 = 0" "round_double 1 = 1" "round_double 2 = 2"
  by (simp_all add: round_double_small)

text \<open>
  Composition with the inverse of the identity changes nothing, in any arithmetic whose
  rounding keeps 0 and the entries of the transform.
\<close>

lemma identity_reference:
  assumes "r 0 = 0" and "fixes_Transform r p"
  shows "mult_Transform r (inverse_Transform r getIdentity) p = p"
proof -
  obtain b v where p: "p = \<lparr> m_basis = b, m_origin = v \<rparr>" by (cases p) simp
  obtain r0 r1 r2 where b: "b = Matrix3x3 r0 r1 r2" by (cases b)
  from assms show ?thesis
    by (cases r0; cases r1; cases r2; cases v)
      (simp add: p b mult_Transform_def inverse_Transform_def getIdentity_def mult_Matrix3x3_def
        mult_Matrix3x3_Vector3_def transpose_Matrix3x3_def neg_Vector3_def apply_Transform_def
        tdotx_def tdoty_def tdotz_def dot_def fixes_Transform_def fixes_Vector3_def Let_def)
qed


lemma fixes_Transform_hint_tf:
  assumes "r 0 = 0" and "r 1 = 1" and "r x = x" and "r y = y" and "r z = z"
  shows "fixes_Transform r (hint_tf x y z)"
  using assms by (simp add: fixes_Transform_def fixes_Vector3_def hint_tf_def getIdentity_def)

subsection \<open>Rigid transforms in exact arithmetic\<close>



















subsection \<open>Empty inputs and the end-to-end run\<close>

lemma compose_unrotated:
  assumes "r 0 = 0" and "r 1 = 1" and "r x = x" and "r y = y" and "r z = z"
    and "r (- a) = - a" and "r (- b) = - b" and "r (- c) = - c"
  shows "mult_Transform r (inverse_Transform r (hint_tf a b c)) (hint_tf x y z) =
           hint_tf (r (x + - a)) (r (y + - b)) (r (z + - c))"
  using assms
  by (simp add: mult_Transform_def inverse_Transform_def Let_def hint_tf_def getIdentity_def
      transpose_Matrix3x3_def mult_Matrix3x3_def mult_Matrix3x3_Vector3_def apply_Transform_def
      neg_Vector3_def dot_def tdotx_def tdoty_def tdotz_def)

text \<open>
  Claim C2 as the specification words it does not hold: the code has no error for an
  empty snapshot. With no submap at all, the hint \<open>(2, 3, 0)\<close> and an identity reference
  origin, the loop body never runs, the hint keeps its z, and the callback sends a
  start-trajectory request with that pose.
\<close>

theorem empty_snapshot_still_restarts_counterexample:
  "submap_poses (env_of True StatusCode_OK [node_at 0 0 (Vector3 0 0 0) (Quaternion 0 0 0 1)] []) = [] \<and>
   fromMsg round_double (hint_msg 2 3 0) = Some (hint_tf 2 3 0) \<and>
   height_recovery round_double (hint_tf 2 3 0) [] = hint_tf 2 3 0 \<and>
   requests (move_base_simple_callback round_double 1
       (env_of True StatusCode_OK [node_at 0 0 (Vector3 0 0 0) (Quaternion 0 0 0 1)] []) (hint_msg 2 3 0))
     = [FinishTrajectory 1, StartTrajectory ''cfg'' ''robot.lua'' 0 True (hint_tf 2 3 0)] \<and>
   ending (move_base_simple_callback round_double 1
       (env_of True StatusCode_OK [node_at 0 0 (Vector3 0 0 0) (Quaternion 0 0 0 1)] []) (hint_msg 2 3 0))
     = Returned"
proof -
  let ?node = "node_at 0 0 (Vector3 0 0 0) (Quaternion 0 0 0 1)"
  let ?env = "env_of True StatusCode_OK [?node] []"
  have 1: "finish_status_code ?env = StatusCode_OK"
    by (simp add: env_of_def)
  have 2: "BeginOfTrajectory 0 (node_poses ?env) = ?node # []"
    by (simp add: env_of_def BeginOfTrajectory_def node_at_def)
  have 3: "traj_ref_tf round_double (global_pose (data ?node)) = Some (hint_tf 0 0 0)"
    by (simp add: node_at_def traj_ref_tf_unrotated plain_round_double)
  have 4: "fromMsg round_double (hint_msg 2 3 0) = Some (hint_tf 2 3 0)"
    by (rule fromMsg_hint_msg) (rule plain_round_double)+
  have 5: "height_recovery round_double (hint_tf 2 3 0) [] = hint_tf 2 3 0"
    by (simp add: height_recovery_def)
  have 6: "submap_poses ?env = []"
    by (simp add: env_of_def)
  have 7: "mult_Transform round_double (inverse_Transform round_double (hint_tf 0 0 0)) (hint_tf 2 3 0)
      = hint_tf 2 3 0"
    by (simp add: compose_unrotated round_double_small)
  from callback_proceeds [OF 1 2 3 4, of 1]
  have "requests (move_base_simple_callback round_double 1 ?env (hint_msg 2 3 0))
     = [FinishTrajectory 1, StartTrajectory ''cfg'' ''robot.lua'' 0 True (hint_tf 2 3 0)]"
    and "ending (move_base_simple_callback round_double 1 ?env (hint_msg 2 3 0)) = Returned"
    by (simp_all only: 6 5 7) (simp add: env_of_def)
  with 4 5 6 show ?thesis
    by (simp only: simp_thms)
qed

text \<open>
  Claim C2, amended. When the snapshot is empty, height recovery returns the hint as it
  came, z included, and does not fail; the composition and the start-trajectory request
  go ahead from that unmodified hint.
\<close>

theorem empty_snapshot_passes_hint_through:
  assumes "submap_poses env = []"
    and "finish_status_code env = StatusCode_OK"
    and "BeginOfTrajectory 0 (node_poses env) = node # rest"
    and "traj_ref_tf r (global_pose (data node)) = Some ref_tf"
    and "fromMsg r msg = Some map_tf"
  shows "height_recovery r map_tf (submap_poses env) = map_tf \<and>
         requests (move_base_simple_callback r c env msg) =
           [FinishTrajectory c,
            StartTrajectory (FLAGS_configuration_directory env) (FLAGS_configuration_basename env)
              0 True (mult_Transform r (inverse_Transform r ref_tf) map_tf)] \<and>
         ending (move_base_simple_callback r c env msg) = Returned"
  using callback_proceeds [OF assms(2-5), of c] assms(1)
  by (simp add: height_recovery_def)

theorem empty_snapshot_passes_hint_through_witness:
  "submap_poses (env_of True StatusCode_OK [node_at 0 0 (Vector3 0 0 4) (Quaternion 0 0 0 1)] []) = [] \<and>
   finish_status_code (env_of True StatusCode_OK [node_at 0 0 (Vector3 0 0 4) (Quaternion 0 0 0 1)] [])
     = StatusCode_OK \<and>
   BeginOfTrajectory 0
     (node_poses (env_of True StatusCode_OK [node_at 0 0 (Vector3 0 0 4) (Quaternion 0 0 0 1)] []))
     = [node_at 0 0 (Vector3 0 0 4) (Quaternion 0 0 0 1)] \<and>
   traj_ref_tf round_double (global_pose (data (node_at 0 0 (Vector3 0 0 4) (Quaternion 0 0 0 1))))
     = Some (hint_tf 0 0 4) \<and>
   fromMsg round_double (hint_msg 2 3 1) = Some (hint_tf 2 3 1) \<and>
   requests (move_base_simple_callback round_double 7
       (env_of True StatusCode_OK [node_at 0 0 (Vector3 0 0 4) (Quaternion 0 0 0 1)] []) (hint_msg 2 3 1))
     = [FinishTrajectory 7, StartTrajectory ''cfg'' ''robot.lua'' 0 True (hint_tf 2 3 (- 3))]"
proof -
  let ?node = "node_at 0 0 (Vector3 0 0 4) (Quaternion 0 0 0 1)"
  let ?env = "env_of True StatusCode_OK [?node] []"
  have 0: "submap_poses ?env = []"
    by (simp add: env_of_def)
  have 1: "finish_status_code ?env = StatusCode_OK"
    by (simp add: env_of_def)
  have 2: "BeginOfTrajectory 0 (node_poses ?env) = ?node # []"
    by (simp add: env_of_def BeginOfTrajectory_def node_at_def)
  have 3: "traj_ref_tf round_double (global_pose (data ?node)) = Some (hint_tf 0 0 4)"
    by (simp add: node_at_def traj_ref_tf_unrotated plain_round_double)
  have 4: "fromMsg round_double (hint_msg 2 3 1) = Some (hint_tf 2 3 1)"
    by (rule fromMsg_hint_msg) (rule plain_round_double)+
  have 6: "mult_Transform round_double (inverse_Transform round_double (hint_tf 0 0 4)) (hint_tf 2 3 1)
      = hint_tf 2 3 (- 3)"
    by (simp add: compose_unrotated round_double_small)
  from empty_snapshot_passes_hint_through [OF 0 1 2 3 4, of 7]
  have "requests (move_base_simple_callback round_double 7 ?env (hint_msg 2 3 1))
     = [FinishTrajectory 7, StartTrajectory ''cfg'' ''robot.lua'' 0 True (hint_tf 2 3 (- 3))]"
    by (simp only: 6) (simp add: env_of_def)
  with 0 1 2 3 4 show ?thesis
    by (simp only: simp_thms)
qed

text \<open>
  Claim C3 asks for a failure when trajectory 0 has no recorded pose, and the comment at
  line 78 says that the pose taken is the start pose of trajectory 0. The code misses the
  case: it dereferences \<open>BeginOfTrajectory(0)\<close> without a test. With a node map whose
  only node belongs to trajectory 1, at \<open>(10, 0, 0)\<close>, the iterator stands at that node;
  for the hint \<open>(2, 3, 0)\<close> the callback takes it as the reference origin and sends a
  start-trajectory request with the pose \<open>(- 8, 3, 0)\<close>, relative to trajectory 0. With
  no node at all the process stops at the \<open>CHECK\<close> of the dereference, the finish
  request sent and the counter advanced.
\<close>

theorem missing_trajectory_0_takes_next_trajectory:
  "map trajectory_id
     (node_poses (env_of True StatusCode_OK [node_at 1 0 (Vector3 10 0 0) (Quaternion 0 0 0 1)] [])) = [1] \<and>
   requests (move_base_simple_callback round_double 1
       (env_of True StatusCode_OK [node_at 1 0 (Vector3 10 0 0) (Quaternion 0 0 0 1)] []) (hint_msg 2 3 0))
     = [FinishTrajectory 1, StartTrajectory ''cfg'' ''robot.lua'' 0 True (hint_tf (- 8) 3 0)] \<and>
   ending (move_base_simple_callback round_double 1
       (env_of True StatusCode_OK [node_at 1 0 (Vector3 10 0 0) (Quaternion 0 0 0 1)] []) (hint_msg 2 3 0))
     = Returned \<and>
   requests (move_base_simple_callback round_double 1 (env_of True StatusCode_OK [] []) (hint_msg 2 3 0))
     = [FinishTrajectory 1] \<and>
   ending (move_base_simple_callback round_double 1 (env_of True StatusCode_OK [] []) (hint_msg 2 3 0))
     = CheckFailed \<and>
   current_trajectory_id
     (move_base_simple_callback round_double 1 (env_of True StatusCode_OK [] []) (hint_msg 2 3 0)) = 2"
proof -
  let ?node = "node_at 1 0 (Vector3 10 0 0) (Quaternion 0 0 0 1)"
  let ?env = "env_of True StatusCode_OK [?node] []"
  let ?none = "env_of True StatusCode_OK [] []"
  have 0: "map trajectory_id (node_poses ?env) = [1]"
    by (simp add: env_of_def node_at_def)
  have 1: "finish_status_code ?env = StatusCode_OK"
    by (simp add: env_of_def)
  have 2: "BeginOfTrajectory 0 (node_poses ?env) = ?node # []"
    by (simp add: env_of_def BeginOfTrajectory_def node_at_def)
  have 3: "traj_ref_tf round_double (global_pose (data ?node)) = Some (hint_tf 10 0 0)"
    by (simp add: node_at_def traj_ref_tf_unrotated plain_round_double)
  have 4: "fromMsg round_double (hint_msg 2 3 0) = Some (hint_tf 2 3 0)"
    by (rule fromMsg_hint_msg) (rule plain_round_double)+
  have 5: "height_recovery round_double (hint_tf 2 3 0) (submap_poses ?env) = hint_tf 2 3 0"
    by (simp add: env_of_def height_recovery_def)
  have 6: "mult_Transform round_double (inverse_Transform round_double (hint_tf 10 0 0)) (hint_tf 2 3 0)
      = hint_tf (- 8) 3 0"
    by (simp add: compose_unrotated round_double_small)
  from callback_proceeds [OF 1 2 3 4, of 1]
  have 7: "requests (move_base_simple_callback round_double 1 ?env (hint_msg 2 3 0))
     = [FinishTrajectory 1, StartTrajectory ''cfg'' ''robot.lua'' 0 True (hint_tf (- 8) 3 0)]"
    and 8: "ending (move_base_simple_callback round_double 1 ?env (hint_msg 2 3 0)) = Returned"
    by (simp_all only: 5 6) (simp add: env_of_def)
  have 9: "finish_status_code ?none = StatusCode_OK"
    by (simp add: env_of_def)
  have 10: "BeginOfTrajectory 0 (node_poses ?none) = []"
    by (simp add: env_of_def BeginOfTrajectory_def)
  note stop = callback_no_origin [OF 9 10, of round_double 1 "hint_msg 2 3 0"]
  have 11: "current_trajectory_id (move_base_simple_callback round_double 1 ?none (hint_msg 2 3 0)) = 2"
    by (simp add: callback_counter)
  from 0 7 8 stop 11 show ?thesis
    by (simp only: simp_thms)
qed

lemma scenario_lengths:
  assumes "r = exact \<or> r = round_double"
  shows "0 < delta_length r (hint_tf 2 3 0) (submap_at 0 0 0 0 1)"
    and "delta_length r (hint_tf 2 3 0) (submap_at 0 1 2 3 7) = 0"
    and "0 < delta_length r (hint_tf 2 3 0) (submap_at 0 2 5 5 2)"
proof -
  have s: "1 \<le> sqrt 13"
    by (rule real_le_rsqrt) simp
  have e: "0 < delta_length exact (hint_tf 2 3 0) (submap_at 0 0 0 0 1)"
    "delta_length exact (hint_tf 2 3 0) (submap_at 0 1 2 3 7) = 0"
    "0 < delta_length exact (hint_tf 2 3 0) (submap_at 0 2 5 5 2)"
    by (simp_all add: delta_length_exact horizontal_distance_def submap_at_def hint_tf_def)
  have d: "delta_length round_double (hint_tf 2 3 0) (submap_at 0 0 0 0 1) = round_double (sqrt 13)"
    "delta_length round_double (hint_tf 2 3 0) (submap_at 0 1 2 3 7) = 0"
    "delta_length round_double (hint_tf 2 3 0) (submap_at 0 2 5 5 2) = round_double (sqrt 13)"
    by (simp_all add: delta_length_def length_Vector3_def length2_def dot_def delta_pos_def
        setZ_def minus_Vector3_def submap_origin_def submap_at_def hint_tf_def round_double_small)
  from assms e d round_double_pos [OF s]
  show "0 < delta_length r (hint_tf 2 3 0) (submap_at 0 0 0 0 1)"
    and "delta_length r (hint_tf 2 3 0) (submap_at 0 1 2 3 7) = 0"
    and "0 < delta_length r (hint_tf 2 3 0) (submap_at 0 2 5 5 2)"
    by auto
qed

lemma plain_either:
  assumes "r = exact \<or> r = round_double"
  shows "r 0 = 0" "r 1 = 1" "r 2 = 2" "r 3 = 3" "r 7 = 7"
  using assms by (auto simp: exact_def round_double_small)

text \<open>
  Claim C8. Hint \<open>(2, 3, 0)\<close> without rotation, fragments A at \<open>(0, 0, 1)\<close>, B at
  \<open>(2, 3, 7)\<close> and C at \<open>(5, 5, 2)\<close> in any iteration order, identity reference origin:
  the corrected pose is \<open>(2, 3, 7)\<close> without rotation, and so is the initial pose of the
  start-trajectory request, in exact arithmetic and in the arithmetic of the doubles.
\<close>

theorem end_to_end_scenario:
  assumes "set submaps = {submap_at 0 0 0 0 1, submap_at 0 1 2 3 7, submap_at 0 2 5 5 2}"
    and "r = exact \<or> r = round_double"
  shows "fromMsg r (hint_msg 2 3 0) = Some (hint_tf 2 3 0) \<and>
         height_recovery r (hint_tf 2 3 0) submaps = hint_tf 2 3 7 \<and>
         requests (move_base_simple_callback r c
             (env_of True StatusCode_OK [node_at 0 0 (Vector3 0 0 0) (Quaternion 0 0 0 1)] submaps)
             (hint_msg 2 3 0))
           = [FinishTrajectory c, StartTrajectory ''cfg'' ''robot.lua'' 0 True (hint_tf 2 3 7)]"
proof -
  let ?d = "\<lambda>f. delta_length r (hint_tf 2 3 0) f"
  let ?A = "submap_at 0 0 0 0 1" and ?B = "submap_at 0 1 2 3 7" and ?C = "submap_at 0 2 5 5 2"
  note p = plain_either [OF assms(2)]
  from scenario_lengths [OF assms(2)]
  have dA: "0 < ?d ?A" and dB: "?d ?B = 0" and dC: "0 < ?d ?C" .
  have "\<exists>f \<in> set submaps. ?d f < 1000000"
    using assms(1) dB by auto
  from scan_selects_nearest [OF this] obtain f where
    f: "f \<in> set submaps" "\<forall>g \<in> set submaps. ?d f \<le> ?d g"
      "scan_submap_poses r submaps (hint_tf 2 3 0) 1000000 =
        ((hint_tf 2 3 0)\<lparr>m_origin := setZ (m_origin (hint_tf 2 3 0)) (getZ (translation (pose (data f))))\<rparr>,
         ?d f)"
    by blast
  from f(2) assms(1) have "?d f \<le> ?d ?B" by simp
  with f(1) assms(1) dA dB dC have "f = ?B" by auto
  with f(3) have hr: "height_recovery r (hint_tf 2 3 0) submaps = hint_tf 2 3 7"
    by (simp add: height_recovery_def hint_tf_def setZ_def submap_at_def)
  let ?node = "node_at 0 0 (Vector3 0 0 0) (Quaternion 0 0 0 1)"
  let ?env = "env_of True StatusCode_OK [?node] submaps"
  have 1: "finish_status_code ?env = StatusCode_OK"
    by (simp add: env_of_def)
  have 2: "BeginOfTrajectory 0 (node_poses ?env) = ?node # []"
    by (simp add: env_of_def BeginOfTrajectory_def node_at_def)
  have 3: "traj_ref_tf r (global_pose (data ?node)) = Some getIdentity"
    using traj_ref_tf_unrotated [OF p(1-3), of 0 0 0]
    by (simp add: node_at_def hint_tf_def getIdentity_def)
  have 4: "fromMsg r (hint_msg 2 3 0) = Some (hint_tf 2 3 0)"
    by (rule fromMsg_hint_msg [OF p(1-3)])
  have 5: "submap_poses ?env = submaps"
    by (simp add: env_of_def)
  have 6: "mult_Transform r (inverse_Transform r getIdentity) (hint_tf 2 3 7) = hint_tf 2 3 7"
    using p by (intro identity_reference [of r] fixes_Transform_hint_tf [of r])
  from callback_proceeds(1) [OF 1 2 3 4, of c]
  have "requests (move_base_simple_callback r c ?env (hint_msg 2 3 0))
           = [FinishTrajectory c, StartTrajectory ''cfg'' ''robot.lua'' 0 True (hint_tf 2 3 7)]"
    by (simp only: 5 hr 6) (simp add: env_of_def)
  with 4 hr show ?thesis by (simp only: simp_thms)
qed

theorem end_to_end_scenario_witness:
  "set [submap_at 0 0 0 0 1, submap_at 0 1 2 3 7, submap_at 0 2 5 5 2]
     = {submap_at 0 0 0 0 1, submap_at 0 1 2 3 7, submap_at 0 2 5 5 2} \<and>
   height_recovery round_double (hint_tf 2 3 0)
       [submap_at 0 0 0 0 1, submap_at 0 1 2 3 7, submap_at 0 2 5 5 2]
     = \<lparr> m_basis = Matrix3x3 (Vector3 1 0 0) (Vector3 0 1 0) (Vector3 0 0 1),
         m_origin = Vector3 2 3 7 \<rparr> \<and>
   requests (move_base_simple_callback round_double 1
       (env_of True StatusCode_OK [node_at 0 0 (Vector3 0 0 0) (Quaternion 0 0 0 1)]
          [submap_at 0 0 0 0 1, submap_at 0 1 2 3 7, submap_at 0 2 5 5 2])
       (hint_msg 2 3 0))
     = [FinishTrajectory 1,
        StartTrajectory ''cfg'' ''robot.lua'' 0 True
          \<lparr> m_basis = Matrix3x3 (Vector3 1 0 0) (Vector3 0 1 0) (Vector3 0 0 1),
            m_origin = Vector3 2 3 7 \<rparr>]"
proof -
  have s: "set [submap_at 0 0 0 0 1, submap_at 0 1 2 3 7, submap_at 0 2 5 5 2]
     = {submap_at 0 0 0 0 1, submap_at 0 1 2 3 7, submap_at 0 2 5 5 2}"
    by simp
  have r: "round_double = exact \<or> round_double = round_double"
    by simp
  have h: "hint_tf 2 3 7 = \<lparr> m_basis = Matrix3x3 (Vector3 1 0 0) (Vector3 0 1 0) (Vector3 0 0 1),
         m_origin = Vector3 2 3 7 \<rparr>"
    by (simp add: hint_tf_def getIdentity_def)
  from end_to_end_scenario [OF s r, of 1] s show ?thesis
    by (simp only: h simp_thms)
qed

end
